theory Spec2Isabelle
  imports Main
begin

section \<open>Data model\<close>

text \<open>
  The generic admin views of \<^verbatim>\<open>wagtail/admin/views/generic.py\<close>. Everything an
  exception can interrupt returns a sum: \<open>Inl\<close> is the exception raised, \<open>Inr\<close> the
  value returned.
\<close>

datatype error =
    PermissionDenied
  | NoReverseMatch
  | IndexError
  | AttributeError
  | Http404
  | FormatError
  | DatabaseError

type_synonym user = string

record http_request =
  user :: user

text \<open>The permission policy: an external capability object with two queries.\<close>

record policy =
  user_has_permission :: "user \<Rightarrow> string \<Rightarrow> bool"
  user_has_any_permission :: "user \<Rightarrow> string list \<Rightarrow> bool"

text \<open>A model instance: its \<^verbatim>\<open>id\<close> attribute and what \<^verbatim>\<open>str()\<close> gives.\<close>

record model_instance =
  instance_id :: nat
  instance_str :: string

text \<open>
  A bound form: what \<^verbatim>\<open>form.save()\<close> does (raise, or persist and return the
  instance) and its inline validation errors.
\<close>

record model_form =
  save :: "error + model_instance"
  errors :: "string list"

datatype response =
    HttpResponseRedirect string
  | TemplateResponse string model_form

text \<open>The Python values that appear in template contexts and as hook results.\<close>

datatype pyval =
    PyNone
  | PyBool bool
  | PyStr string
  | PyTuple "pyval list"
  | PyResponse response

type_synonym template_context = "string \<rightharpoonup> pyval"

text \<open>Python truthiness (\<^verbatim>\<open>bool(x)\<close>): a tuple is truthy iff it is not empty.\<close>

fun truthy :: "pyval \<Rightarrow> bool" where
  "truthy PyNone = False"
| "truthy (PyBool b) = b"
| "truthy (PyStr s) = (s \<noteq> [])"
| "truthy (PyTuple xs) = (xs \<noteq> [])"
| "truthy (PyResponse r) = True"

text \<open>\<^verbatim>\<open>hasattr(result, 'status_code')\<close>: of the values above only responses have it.\<close>

fun hasattr_status_code :: "pyval \<Rightarrow> bool" where
  "hasattr_status_code (PyResponse r) = True"
| "hasattr_status_code _ = False"

text \<open>
  The effects of a request on the outside world, in the order they happen: an instance
  persisted by \<^verbatim>\<open>form.save()\<close>, an instance deleted, a message handed to the
  messaging facility.
\<close>

datatype level = LevelSuccess | LevelError

datatype button = Button string string

datatype event =
    FormSaved model_instance
  | ObjectDeleted model_instance
  | Message level "string option" "button list"

type_synonym world = "event list"

text \<open>
  A view object: the class attributes a subclass configures, then the attributes of the
  instance (\<^verbatim>\<open>self.request\<close>, \<^verbatim>\<open>self.args\<close>, \<^verbatim>\<open>self.kwargs\<close>,
  \<^verbatim>\<open>self.form\<close>, \<^verbatim>\<open>self.object\<close>).
\<close>

record view =
  permission_policy :: "policy option"
  permission_required :: "string option"
  any_permission_required :: "string list option"
  index_url_name :: "string option"
  add_url_name :: "string option"
  edit_url_name :: "string option"
  delete_url_name :: "string option"
  template_name :: "string option"
  success_message :: "string option"
  error_message :: "string option"
  request :: http_request
  args :: "nat list"
  kwargs :: "string \<rightharpoonup> nat"
  form :: "model_form option"
  object :: "model_instance option"

text \<open>
  The external collaborators, opaque to these views: URL reversal, translation,
  \<^verbatim>\<open>str.format\<close>, and the methods of the framework's base views reached through
  \<^verbatim>\<open>super()\<close>.
\<close>

record env =
  reverse :: "string option \<Rightarrow> nat list \<Rightarrow> error + string"
  gettext :: "string \<Rightarrow> string"
  str_format :: "string \<Rightarrow> model_instance option \<Rightarrow> error + string"
  super_dispatch :: "view \<Rightarrow> http_request \<Rightarrow> world \<Rightarrow> (error + response) \<times> view \<times> world"
  super_form_invalid :: "view \<Rightarrow> model_form \<Rightarrow> error + response"
  super_get_object :: "view \<Rightarrow> error + model_instance"
  super_get_context_data :: "view \<Rightarrow> template_context \<Rightarrow> template_context"

section \<open>PermissionCheckedMixin\<close>

definition dispatch :: "env \<Rightarrow> view \<Rightarrow> http_request \<Rightarrow> world \<Rightarrow> (error + response) \<times> view \<times> world" where
  "dispatch e v req w =
     (case permission_policy v of
        None \<Rightarrow> super_dispatch e v req w
      | Some p \<Rightarrow>
          if (case permission_required v of
                None \<Rightarrow> False
              | Some a \<Rightarrow> \<not> user_has_permission p (user req) a)
          then (Inl PermissionDenied, v, w)
          else if (case any_permission_required v of
                     None \<Rightarrow> False
                   | Some as \<Rightarrow> \<not> user_has_any_permission p (user req) as)
          then (Inl PermissionDenied, v, w)
          else super_dispatch e v req w)"

section \<open>The messaging facility and the hook registry\<close>

text \<open>
  The messaging interface (\<^verbatim>\<open>success\<close>, \<^verbatim>\<open>error\<close>, \<^verbatim>\<open>button\<close>) is
  \<^verbatim>\<open>wagtail.admin.messages\<close>, whose code is not part of the file verified here. A
  call of \<^verbatim>\<open>success\<close> or \<^verbatim>\<open>error\<close> hands one message to the facility; the
  call is the emission, whatever the text is.
\<close>

text \<open>
  Modelled from the spec: \<^verbatim>\<open>messages.button\<close>, missing from the sources; a button
  is a URL and a label.
\<close>

definition messages_button :: "string \<Rightarrow> string \<Rightarrow> button" where
  "messages_button url text = Button url text"

text \<open>
  Modelled from the spec: \<^verbatim>\<open>messages.success\<close>, missing from the sources; it emits
  one success message with the given text and buttons.
\<close>

definition messages_success :: "world \<Rightarrow> string option \<Rightarrow> button list \<Rightarrow> world" where
  "messages_success w message buttons = w @ [Message LevelSuccess message buttons]"

text \<open>
  Modelled from the spec: \<^verbatim>\<open>messages.error\<close>, missing from the sources; it emits
  one error message with the given text.
\<close>

definition messages_error :: "world \<Rightarrow> string option \<Rightarrow> world" where
  "messages_error w message = w @ [Message LevelError message []]"

text \<open>
  A hook callback takes the arguments and may change any state of its own; it returns a
  Python value.
\<close>

type_synonym ('a, 's) hook_fn = "'a \<Rightarrow> 's \<Rightarrow> pyval \<times> 's"

type_synonym ('a, 's) registry = "string \<rightharpoonup> ('a, 's) hook_fn list"

text \<open>
  Modelled from the spec: \<^verbatim>\<open>hooks.get_hooks\<close> of \<^verbatim>\<open>wagtail.core.hooks\<close>, whose
  code is not part of the file verified here. The registry is a mapping from hook name to
  an ordered sequence of callables; a name nobody registered under has none.
\<close>

definition get_hooks :: "('a, 's) registry \<Rightarrow> string \<Rightarrow> ('a, 's) hook_fn list" where
  "get_hooks reg hook_name = (case reg hook_name of None \<Rightarrow> [] | Some fns \<Rightarrow> fns)"

section \<open>HookResponseMixin\<close>

text \<open>The \<^verbatim>\<open>for\<close> loop of \<^verbatim>\<open>run_hook\<close>; falling off its end returns \<^verbatim>\<open>None\<close>.\<close>

fun run_hook_loop :: "('a, 's) hook_fn list \<Rightarrow> 'a \<Rightarrow> 's \<Rightarrow> pyval \<times> 's" where
  "run_hook_loop [] a s = (PyNone, s)"
| "run_hook_loop (fn # fns) a s =
     (case fn a s of
        (result, s') \<Rightarrow>
          if hasattr_status_code result then (result, s')
          else run_hook_loop fns a s')"

definition run_hook :: "('a, 's) registry \<Rightarrow> string \<Rightarrow> 'a \<Rightarrow> 's \<Rightarrow> pyval \<times> 's" where
  "run_hook reg hook_name a s = run_hook_loop (get_hooks reg hook_name) a s"

section \<open>IndexView\<close>

definition IndexView :: "http_request \<Rightarrow> nat list \<Rightarrow> (string \<rightharpoonup> nat) \<Rightarrow> view" where
  "IndexView req as kw =
     \<lparr> permission_policy = None, permission_required = None,
       any_permission_required = Some [''add'', ''change'', ''delete''],
       index_url_name = None, add_url_name = None, edit_url_name = None,
       delete_url_name = None, template_name = None,
       success_message = None, error_message = None,
       request = req, args = as, kwargs = kw, form = None, object = None \<rparr>"

definition IndexView_get_context_data :: "env \<Rightarrow> view \<Rightarrow> template_context \<Rightarrow> template_context" where
  "IndexView_get_context_data e v kw =
     (let context = super_get_context_data e v kw
      in context(''can_add'' \<mapsto>
           PyBool (case permission_policy v of
                     None \<Rightarrow> True
                   | Some p \<Rightarrow> user_has_permission p (user (request v)) ''add'')))"

section \<open>CreateView\<close>

definition CreateView :: "http_request \<Rightarrow> nat list \<Rightarrow> (string \<rightharpoonup> nat) \<Rightarrow> view" where
  "CreateView req as kw =
     \<lparr> permission_policy = None, permission_required = Some ''add'',
       any_permission_required = None,
       index_url_name = None, add_url_name = None, edit_url_name = None,
       delete_url_name = None,
       template_name = Some ''wagtailadmin/generic/create.html'',
       success_message = None, error_message = None,
       request = req, args = as, kwargs = kw, form = None, object = None \<rparr>"

text \<open>\<^verbatim>\<open>django.shortcuts.redirect\<close> on a URL: a redirect response to it.\<close>

definition redirect :: "string \<Rightarrow> response" where
  "redirect url = HttpResponseRedirect url"

text \<open>\<^verbatim>\<open>self.object.id\<close>; reading an attribute of \<^verbatim>\<open>None\<close> raises.\<close>

definition object_id :: "view \<Rightarrow> error + nat" where
  "object_id v = (case object v of None \<Rightarrow> Inl AttributeError | Some obj \<Rightarrow> Inr (instance_id obj))"

definition CreateView_get_add_url :: "env \<Rightarrow> view \<Rightarrow> error + string" where
  "CreateView_get_add_url e v = reverse e (add_url_name v) []"

definition CreateView_get_success_url :: "env \<Rightarrow> view \<Rightarrow> error + string" where
  "CreateView_get_success_url e v = reverse e (index_url_name v) []"

definition CreateView_get_success_message :: "env \<Rightarrow> view \<Rightarrow> model_instance option \<Rightarrow> error + string option" where
  "CreateView_get_success_message e v inst =
     (case success_message v of
        None \<Rightarrow> Inr None
      | Some m \<Rightarrow> (case str_format e m inst of Inl err \<Rightarrow> Inl err | Inr text \<Rightarrow> Inr (Some text)))"

definition CreateView_get_error_message :: "view \<Rightarrow> string option" where
  "CreateView_get_error_message v =
     (case error_message v of None \<Rightarrow> None | Some m \<Rightarrow> Some m)"

text \<open>
  \<^verbatim>\<open>self.form.save()\<close>: when the form's save does not raise, the instance is
  persisted and returned.
\<close>

definition CreateView_save_instance :: "view \<Rightarrow> world \<Rightarrow> (error + model_instance) \<times> world" where
  "CreateView_save_instance v w =
     (case form v of
        None \<Rightarrow> (Inl AttributeError, w)
      | Some f \<Rightarrow>
          (case save f of
             Inl err \<Rightarrow> (Inl err, w)
           | Inr obj \<Rightarrow> (Inr obj, w @ [FormSaved obj])))"

definition CreateView_form_valid :: "env \<Rightarrow> view \<Rightarrow> model_form \<Rightarrow> world \<Rightarrow> (error + response) \<times> view \<times> world" where
  "CreateView_form_valid e v frm w =
     (let v1 = v\<lparr>form := Some frm\<rparr> in
      case CreateView_save_instance v1 w of
        (Inl err, w1) \<Rightarrow> (Inl err, v1, w1)
      | (Inr obj, w1) \<Rightarrow>
          (let v2 = v1\<lparr>object := Some obj\<rparr> in
           case CreateView_get_success_message e v2 (object v2) of
             Inl err \<Rightarrow> (Inl err, v2, w1)
           | Inr success_msg \<Rightarrow>
               (case (case success_msg of
                        None \<Rightarrow> Inr w1
                      | Some text \<Rightarrow>
                          (case object_id v2 of
                             Inl err \<Rightarrow> Inl err
                           | Inr i \<Rightarrow>
                               (case reverse e (edit_url_name v2) [i] of
                                  Inl err \<Rightarrow> Inl err
                                | Inr url \<Rightarrow>
                                    Inr (messages_success w1 (Some text)
                                           [messages_button url (gettext e ''Edit'')])))) of
                  Inl err \<Rightarrow> (Inl err, v2, w1)
                | Inr w2 \<Rightarrow>
                    (case CreateView_get_success_url e v2 of
                       Inl err \<Rightarrow> (Inl err, v2, w2)
                     | Inr url \<Rightarrow> (Inr (redirect url), v2, w2)))))"

definition CreateView_form_invalid :: "env \<Rightarrow> view \<Rightarrow> model_form \<Rightarrow> world \<Rightarrow> (error + response) \<times> view \<times> world" where
  "CreateView_form_invalid e v frm w =
     (let v1 = v\<lparr>form := Some frm\<rparr>;
          w1 = (case CreateView_get_error_message v1 of
                  None \<Rightarrow> w
                | Some error_msg \<Rightarrow> messages_error w (Some error_msg))
      in (super_form_invalid e v1 frm, v1, w1))"

section \<open>EditView\<close>

definition EditView :: "http_request \<Rightarrow> nat list \<Rightarrow> (string \<rightharpoonup> nat) \<Rightarrow> view" where
  "EditView req as kw =
     \<lparr> permission_policy = None, permission_required = Some ''change'',
       any_permission_required = None,
       index_url_name = None, add_url_name = None, edit_url_name = None,
       delete_url_name = None,
       template_name = Some ''wagtailadmin/generic/edit.html'',
       success_message = None, error_message = None,
       request = req, args = as, kwargs = kw, form = None, object = None \<rparr>"

text \<open>
  \<^verbatim>\<open>get_object\<close>: a missing \<^verbatim>\<open>pk\<close> keyword argument is taken from the first
  positional argument (\<^verbatim>\<open>self.args[0]\<close> raises on an empty tuple), then the
  framework looks the object up.
\<close>

definition EditView_get_object :: "env \<Rightarrow> view \<Rightarrow> (error + model_instance) \<times> view" where
  "EditView_get_object e v =
     (if kwargs v ''pk'' = None then
        (case args v of
           [] \<Rightarrow> (Inl IndexError, v)
         | a # _ \<Rightarrow>
             (let v1 = v\<lparr>kwargs := (kwargs v)(''pk'' \<mapsto> a)\<rparr>
              in (super_get_object e v1, v1)))
      else (super_get_object e v, v))"

definition EditView_get_page_subtitle :: "view \<Rightarrow> error + string" where
  "EditView_get_page_subtitle v =
     (case object v of None \<Rightarrow> Inl AttributeError | Some obj \<Rightarrow> Inr (instance_str obj))"

definition EditView_get_edit_url :: "env \<Rightarrow> view \<Rightarrow> error + string" where
  "EditView_get_edit_url e v =
     (case object_id v of Inl err \<Rightarrow> Inl err | Inr i \<Rightarrow> reverse e (edit_url_name v) [i])"

definition EditView_get_delete_url :: "env \<Rightarrow> view \<Rightarrow> error + string" where
  "EditView_get_delete_url e v =
     (case object_id v of Inl err \<Rightarrow> Inl err | Inr i \<Rightarrow> reverse e (delete_url_name v) [i])"

definition EditView_get_success_url :: "env \<Rightarrow> view \<Rightarrow> error + string" where
  "EditView_get_success_url e v = reverse e (index_url_name v) []"

definition EditView_save_instance :: "view \<Rightarrow> world \<Rightarrow> (error + model_instance) \<times> world" where
  "EditView_save_instance v w =
     (case form v of
        None \<Rightarrow> (Inl AttributeError, w)
      | Some f \<Rightarrow>
          (case save f of
             Inl err \<Rightarrow> (Inl err, w)
           | Inr obj \<Rightarrow> (Inr obj, w @ [FormSaved obj])))"

definition EditView_get_success_message :: "env \<Rightarrow> view \<Rightarrow> error + string option" where
  "EditView_get_success_message e v =
     (case success_message v of
        None \<Rightarrow> Inr None
      | Some m \<Rightarrow> (case str_format e m (object v) of Inl err \<Rightarrow> Inl err | Inr text \<Rightarrow> Inr (Some text)))"

definition EditView_get_error_message :: "view \<Rightarrow> string option" where
  "EditView_get_error_message v =
     (case error_message v of None \<Rightarrow> None | Some m \<Rightarrow> Some m)"

definition EditView_form_valid :: "env \<Rightarrow> view \<Rightarrow> model_form \<Rightarrow> world \<Rightarrow> (error + response) \<times> view \<times> world" where
  "EditView_form_valid e v frm w =
     (let v1 = v\<lparr>form := Some frm\<rparr> in
      case EditView_save_instance v1 w of
        (Inl err, w1) \<Rightarrow> (Inl err, v1, w1)
      | (Inr obj, w1) \<Rightarrow>
          (let v2 = v1\<lparr>object := Some obj\<rparr> in
           case EditView_get_success_message e v2 of
             Inl err \<Rightarrow> (Inl err, v2, w1)
           | Inr success_msg \<Rightarrow>
               (case (case success_msg of
                        None \<Rightarrow> Inr w1
                      | Some text \<Rightarrow>
                          (case object_id v2 of
                             Inl err \<Rightarrow> Inl err
                           | Inr i \<Rightarrow>
                               (case reverse e (edit_url_name v2) [i] of
                                  Inl err \<Rightarrow> Inl err
                                | Inr url \<Rightarrow>
                                    Inr (messages_success w1 (Some text)
                                           [messages_button url (gettext e ''Edit'')])))) of
                  Inl err \<Rightarrow> (Inl err, v2, w1)
                | Inr w2 \<Rightarrow>
                    (case EditView_get_success_url e v2 of
                       Inl err \<Rightarrow> (Inl err, v2, w2)
                     | Inr url \<Rightarrow> (Inr (redirect url), v2, w2)))))"

definition EditView_form_invalid :: "env \<Rightarrow> view \<Rightarrow> model_form \<Rightarrow> world \<Rightarrow> (error + response) \<times> view \<times> world" where
  "EditView_form_invalid e v frm w =
     (let v1 = v\<lparr>form := Some frm\<rparr>;
          w1 = (case EditView_get_error_message v1 of
                  None \<Rightarrow> w
                | Some error_msg \<Rightarrow> messages_error w (Some error_msg))
      in (super_form_invalid e v1 frm, v1, w1))"

text \<open>
  The value stored under \<^verbatim>\<open>can_delete\<close> is the parenthesised expression followed
  by a comma: a tuple of one element.
\<close>

definition EditView_get_context_data :: "env \<Rightarrow> view \<Rightarrow> template_context \<Rightarrow> template_context" where
  "EditView_get_context_data e v kw =
     (let context = super_get_context_data e v kw
      in context(''can_delete'' \<mapsto>
           PyTuple [PyBool (case permission_policy v of
                              None \<Rightarrow> True
                            | Some p \<Rightarrow> user_has_permission p (user (request v)) ''delete'')]))"

section \<open>DeleteView\<close>

definition DeleteView :: "http_request \<Rightarrow> nat list \<Rightarrow> (string \<rightharpoonup> nat) \<Rightarrow> view" where
  "DeleteView req as kw =
     \<lparr> permission_policy = None, permission_required = Some ''delete'',
       any_permission_required = None,
       index_url_name = None, add_url_name = None, edit_url_name = None,
       delete_url_name = None,
       template_name = Some ''wagtailadmin/generic/confirm_delete.html'',
       success_message = None, error_message = None,
       request = req, args = as, kwargs = kw, form = None, object = None \<rparr>"

definition DeleteView_get_object :: "env \<Rightarrow> view \<Rightarrow> (error + model_instance) \<times> view" where
  "DeleteView_get_object e v =
     (if kwargs v ''pk'' = None then
        (case args v of
           [] \<Rightarrow> (Inl IndexError, v)
         | a # _ \<Rightarrow>
             (let v1 = v\<lparr>kwargs := (kwargs v)(''pk'' \<mapsto> a)\<rparr>
              in (super_get_object e v1, v1)))
      else (super_get_object e v, v))"

definition DeleteView_get_success_url :: "env \<Rightarrow> view \<Rightarrow> error + string" where
  "DeleteView_get_success_url e v = reverse e (index_url_name v) []"

definition DeleteView_get_page_subtitle :: "view \<Rightarrow> error + string" where
  "DeleteView_get_page_subtitle v =
     (case object v of None \<Rightarrow> Inl AttributeError | Some obj \<Rightarrow> Inr (instance_str obj))"

definition DeleteView_get_delete_url :: "env \<Rightarrow> view \<Rightarrow> error + string" where
  "DeleteView_get_delete_url e v =
     (case object_id v of Inl err \<Rightarrow> Inl err | Inr i \<Rightarrow> reverse e (delete_url_name v) [i])"

definition DeleteView_get_success_message :: "env \<Rightarrow> view \<Rightarrow> error + string option" where
  "DeleteView_get_success_message e v =
     (case success_message v of
        None \<Rightarrow> Inr None
      | Some m \<Rightarrow> (case str_format e m (object v) of Inl err \<Rightarrow> Inl err | Inr text \<Rightarrow> Inr (Some text)))"

text \<open>
  Modelled from the spec: the \<^verbatim>\<open>delete\<close> of the framework's base delete view, which
  \<^verbatim>\<open>DeleteView.delete\<close> reaches through \<^verbatim>\<open>super()\<close> and whose code is not part
  of the file verified here. The spec's control flow is: delegate to the framework base
  view, which on success persists the change and redirects to the index URL. The base view
  fetches the object with the view's \<^verbatim>\<open>get_object\<close>, resolves the view's
  \<^verbatim>\<open>get_success_url\<close>, deletes the object and answers with a redirect to that URL.
\<close>

definition BaseDeleteView_delete :: "env \<Rightarrow> view \<Rightarrow> http_request \<Rightarrow> world \<Rightarrow> (error + response) \<times> view \<times> world" where
  "BaseDeleteView_delete e v req w =
     (case DeleteView_get_object e v of
        (Inl err, v1) \<Rightarrow> (Inl err, v1, w)
      | (Inr obj, v1) \<Rightarrow>
          (let v2 = v1\<lparr>object := Some obj\<rparr> in
           case DeleteView_get_success_url e v2 of
             Inl err \<Rightarrow> (Inl err, v2, w)
           | Inr url \<Rightarrow> (Inr (HttpResponseRedirect url), v2, w @ [ObjectDeleted obj])))"

definition DeleteView_delete :: "env \<Rightarrow> view \<Rightarrow> http_request \<Rightarrow> world \<Rightarrow> (error + response) \<times> view \<times> world" where
  "DeleteView_delete e v req w =
     (case BaseDeleteView_delete e v req w of
        (Inl err, v1, w1) \<Rightarrow> (Inl err, v1, w1)
      | (Inr response, v1, w1) \<Rightarrow>
          (case DeleteView_get_success_message e v1 of
             Inl err \<Rightarrow> (Inl err, v1, w1)
           | Inr message \<Rightarrow> (Inr response, v1, messages_success w1 message [])))"

section \<open>Observations and specifications\<close>

text \<open>
  The condition under which the permission gate refuses a request, in the words of the
  specification: there is a policy, and a required permission is set that the policy does
  not grant, or a list of permissions is set of which the policy grants none.
\<close>

definition permission_denied :: "view \<Rightarrow> http_request \<Rightarrow> bool" where
  "permission_denied v req =
     (case permission_policy v of
        None \<Rightarrow> False
      | Some p \<Rightarrow>
          (case permission_required v of
             None \<Rightarrow> False
           | Some a \<Rightarrow> \<not> user_has_permission p (user req) a)
          \<or> (case any_permission_required v of
                None \<Rightarrow> False
              | Some as \<Rightarrow> \<not> user_has_any_permission p (user req) as))"

text \<open>
  Invoking every callback of a list in order, each in the state its predecessor left:
  the result and the state after each call.
\<close>

fun invoke_all :: "('a, 's) hook_fn list \<Rightarrow> 'a \<Rightarrow> 's \<Rightarrow> (pyval \<times> 's) list" where
  "invoke_all [] a s = []"
| "invoke_all (fn # fns) a s = fn a s # invoke_all fns a (snd (fn a s))"

text \<open>
  What running a hook is specified to give: the first call whose result is response-like,
  with the state right after that call; when there is none, \<^verbatim>\<open>None\<close> and the state
  after all the calls.
\<close>

definition first_response :: "('a, 's) hook_fn list \<Rightarrow> 'a \<Rightarrow> 's \<Rightarrow> pyval \<times> 's" where
  "first_response fns a s =
     (case find (\<lambda>call. hasattr_status_code (fst call)) (invoke_all fns a s) of
        Some call \<Rightarrow> call
      | None \<Rightarrow> (PyNone, foldl (\<lambda>s' fn. snd (fn a s')) s fns))"

text \<open>
  The levels of the messages among the events that a step added to the world \<open>w\<close> to
  reach \<open>w'\<close>, in the order of their emission.
\<close>

fun message_levels :: "event list \<Rightarrow> level list" where
  "message_levels [] = []"
| "message_levels (Message lv text buttons # es) = lv # message_levels es"
| "message_levels (FormSaved obj # es) = message_levels es"
| "message_levels (ObjectDeleted obj # es) = message_levels es"

definition new_events :: "world \<Rightarrow> world \<Rightarrow> event list" where
  "new_events w w' = drop (length w) w'"

definition emitted :: "world \<Rightarrow> world \<Rightarrow> level list" where
  "emitted w w' = message_levels (new_events w w')"


section \<open>Example inputs\<close>

definition deny_all :: policy where
  "deny_all =
     \<lparr> user_has_permission = (\<lambda>u a. False),
       user_has_any_permission = (\<lambda>u as. False) \<rparr>"

definition allow_all :: policy where
  "allow_all =
     \<lparr> user_has_permission = (\<lambda>u a. True),
       user_has_any_permission = (\<lambda>u as. True) \<rparr>"

definition add_only :: policy where
  "add_only =
     \<lparr> user_has_permission = (\<lambda>u a. a = ''add''),
       user_has_any_permission = (\<lambda>u as. ''add'' \<in> set as) \<rparr>"

definition demo_reverse :: "string option \<Rightarrow> nat list \<Rightarrow> error + string" where
  "demo_reverse name as =
     (case name of None \<Rightarrow> Inl NoReverseMatch | Some n \<Rightarrow> Inr (CHR ''/'' # n))"

definition demo_instance :: model_instance where
  "demo_instance = \<lparr> instance_id = 7, instance_str = ''Thing 7'' \<rparr>"

definition demo_form :: model_form where
  "demo_form = \<lparr> save = Inr demo_instance, errors = [] \<rparr>"

definition invalid_form :: model_form where
  "invalid_form = \<lparr> save = Inl DatabaseError, errors = [''This field is required.''] \<rparr>"

definition demo_env :: env where
  "demo_env =
     \<lparr> reverse = demo_reverse,
       gettext = (\<lambda>s. s),
       str_format = (\<lambda>m inst. Inr m),
       super_dispatch =
         (\<lambda>v req w. (Inr (TemplateResponse ''page'' demo_form), v, w @ [FormSaved demo_instance])),
       super_form_invalid = (\<lambda>v frm. Inr (TemplateResponse ''form'' frm)),
       super_get_object =
         (\<lambda>v. case kwargs v ''pk'' of
                 None \<Rightarrow> Inl Http404
               | Some k \<Rightarrow> if k = 7 then Inr demo_instance else Inl Http404),
       super_get_context_data = (\<lambda>v kw. kw) \<rparr>"

text \<open>The same collaborators, with a base view whose own dispatch refuses the request.\<close>

definition refusing_base_env :: env where
  "refusing_base_env =
     demo_env\<lparr>super_dispatch := (\<lambda>v req w. (Inl PermissionDenied, v, w))\<rparr>"

definition demo_request :: http_request where
  "demo_request = \<lparr> user = ''editor'' \<rparr>"

text \<open>Subclasses that configure the URL names and leave the messages at their defaults.\<close>

definition ThingCreateView :: view where
  "ThingCreateView =
     (CreateView demo_request [] Map.empty)
       \<lparr> index_url_name := Some ''things'', edit_url_name := Some ''things/edit'' \<rparr>"

definition MessagingCreateView :: view where
  "MessagingCreateView = ThingCreateView\<lparr>success_message := Some ''Thing created.''\<rparr>"

definition ThingEditView :: view where
  "ThingEditView =
     (EditView demo_request [7] Map.empty)
       \<lparr> index_url_name := Some ''things'', edit_url_name := Some ''things/edit'' \<rparr>"

definition ThingDeleteView :: view where
  "ThingDeleteView =
     (DeleteView demo_request [7] Map.empty) \<lparr> index_url_name := Some ''things'' \<rparr>"

text \<open>Hook callbacks that record their own invocation in the state.\<close>

definition logging_hook :: "nat \<Rightarrow> pyval \<Rightarrow> (unit, nat list) hook_fn" where
  "logging_hook n result = (\<lambda>a calls. (result, calls @ [n]))"

definition demo_registry :: "(unit, nat list) registry" where
  "demo_registry =
     [''before_edit'' \<mapsto>
        [logging_hook 1 PyNone,
         logging_hook 2 (PyStr ''ignored''),
         logging_hook 3 (PyResponse (HttpResponseRedirect ''/login'')),
         logging_hook 4 (PyResponse (HttpResponseRedirect ''/other''))],
      ''after_edit'' \<mapsto> [logging_hook 5 PyNone, logging_hook 6 (PyBool True)]]"

section \<open>The permission gate\<close>

text \<open>
  C1. For a view with a permission policy, the permission check comes before any mutating
  action: when the policy does not grant the required permission, or grants none of the
  permissions of which any is required, \<open>dispatch\<close> raises \<open>PermissionDenied\<close>, the base
  view is not reached, and the world is left as it was: nothing saved, nothing deleted,
  no message emitted.
\<close>

theorem dispatch_denied_no_effect:
  assumes "permission_policy v = Some p"
    and "(\<exists>a. permission_required v = Some a \<and> \<not> user_has_permission p (user req) a)
         \<or> (\<exists>as. any_permission_required v = Some as
                \<and> \<not> user_has_any_permission p (user req) as)"
  shows "dispatch e v req w = (Inl PermissionDenied, v, w)"
  using assms by (auto simp: dispatch_def split: option.splits)

theorem dispatch_denied_no_effect_witness:
  "dispatch demo_env (ThingCreateView\<lparr>permission_policy := Some deny_all\<rparr>) demo_request []
     = (Inl PermissionDenied, ThingCreateView\<lparr>permission_policy := Some deny_all\<rparr>, [])
   \<and> snd (snd (super_dispatch demo_env (ThingCreateView\<lparr>permission_policy := Some deny_all\<rparr>)
                 demo_request []))
     = [FormSaved demo_instance]"
proof -
  let ?v = "ThingCreateView\<lparr>permission_policy := Some deny_all\<rparr>"
  have p: "permission_policy ?v = Some deny_all"
    by simp
  have d: "(\<exists>a. permission_required ?v = Some a
               \<and> \<not> user_has_permission deny_all (user demo_request) a)
         \<or> (\<exists>as. any_permission_required ?v = Some as
                \<and> \<not> user_has_any_permission deny_all (user demo_request) as)"
    by (simp add: ThingCreateView_def CreateView_def deny_all_def)
  show ?thesis
    using dispatch_denied_no_effect [OF p d, of demo_env "[]"]
    by (simp add: demo_env_def)
qed

text \<open>
  C9, as the claim states it, fails in one direction: \<open>dispatch\<close> ends with
  \<open>return super().dispatch(...)\<close>, so a \<open>PermissionDenied\<close> raised by the base view
  comes out of \<open>dispatch\<close> although there is no policy and the gate refused nothing.
\<close>

theorem base_dispatch_raise_propagates:
  "permission_policy ThingCreateView = None
   \<and> \<not> permission_denied ThingCreateView demo_request
   \<and> fst (dispatch refusing_base_env ThingCreateView demo_request []) = Inl PermissionDenied"
  by (simp add: dispatch_def permission_denied_def ThingCreateView_def CreateView_def
      refusing_base_env_def)

text \<open>
  C9, amended. \<open>dispatch\<close> itself raises \<open>PermissionDenied\<close>, before the base view is
  reached and with the view and the world untouched, exactly when there is a policy and a
  set \<open>permission_required\<close> is not granted or a set \<open>any_permission_required\<close> is not
  granted; in every other case its outcome is the outcome of the base view's dispatch,
  an exception of the base view included. So \<open>dispatch\<close> raises \<open>PermissionDenied\<close>
  whatever the base view does iff the gate refuses, and for a base view that does not
  raise it, iff the gate refuses. Without a policy nothing is checked, whatever
  \<open>permission_required\<close> is, and with both attributes set both checks must pass.
\<close>

theorem dispatch_own_raise_iff:
  "dispatch e v req w =
     (if permission_denied v req then (Inl PermissionDenied, v, w)
      else super_dispatch e v req w)
   \<and> ((\<forall>e'. dispatch e' v req w = (Inl PermissionDenied, v, w)) \<longleftrightarrow> permission_denied v req)
   \<and> (fst (super_dispatch e v req w) \<noteq> Inl PermissionDenied \<longrightarrow>
        (fst (dispatch e v req w) = Inl PermissionDenied \<longleftrightarrow> permission_denied v req))"
proof -
  have eq: "dispatch e' v req w =
     (if permission_denied v req then (Inl PermissionDenied, v, w)
      else super_dispatch e' v req w)" for e'
    by (auto simp: dispatch_def permission_denied_def split: option.splits)
  have always: "(\<forall>e'. dispatch e' v req w = (Inl PermissionDenied, v, w))
      \<longleftrightarrow> permission_denied v req"
  proof
    assume all: "\<forall>e'. dispatch e' v req w = (Inl PermissionDenied, v, w)"
    let ?e = "e\<lparr>super_dispatch := (\<lambda>v req w. (Inr (HttpResponseRedirect []), v, w))\<rparr>"
    from all have "dispatch ?e v req w = (Inl PermissionDenied, v, w)"
      by blast
    with eq [of ?e] show "permission_denied v req"
      by (simp split: if_splits)
  next
    assume "permission_denied v req"
    with eq show "\<forall>e'. dispatch e' v req w = (Inl PermissionDenied, v, w)"
      by simp
  qed
  have cond: "fst (super_dispatch e v req w) \<noteq> Inl PermissionDenied \<longrightarrow>
        (fst (dispatch e v req w) = Inl PermissionDenied \<longleftrightarrow> permission_denied v req)"
    using eq [of e] by auto
  from eq [of e] always cond show ?thesis
    by blast
qed

theorem dispatch_own_raise_iff_witness:
  "fst (super_dispatch demo_env ThingCreateView demo_request []) \<noteq> Inl PermissionDenied
   \<and> permission_required ThingCreateView = Some ''add''
   \<and> \<not> permission_denied ThingCreateView demo_request
   \<and> dispatch demo_env ThingCreateView demo_request []
       = super_dispatch demo_env ThingCreateView demo_request []
   \<and> fst (dispatch demo_env ThingCreateView demo_request []) \<noteq> Inl PermissionDenied
   \<and> permission_denied (ThingCreateView\<lparr>permission_policy := Some deny_all\<rparr>) demo_request
   \<and> dispatch demo_env (ThingCreateView\<lparr>permission_policy := Some deny_all\<rparr>) demo_request []
       = (Inl PermissionDenied, ThingCreateView\<lparr>permission_policy := Some deny_all\<rparr>, [])
   \<and> dispatch refusing_base_env (ThingCreateView\<lparr>permission_policy := Some deny_all\<rparr>)
         demo_request []
       = (Inl PermissionDenied, ThingCreateView\<lparr>permission_policy := Some deny_all\<rparr>, [])"
proof -
  let ?denied = "ThingCreateView\<lparr>permission_policy := Some deny_all\<rparr>"
  have base: "fst (super_dispatch demo_env ThingCreateView demo_request [])
      \<noteq> Inl PermissionDenied"
    by (simp add: demo_env_def)
  have open_view: "\<not> permission_denied ThingCreateView demo_request"
    by (simp add: permission_denied_def ThingCreateView_def CreateView_def)
  have refused: "permission_denied ?denied demo_request"
    by (simp add: permission_denied_def ThingCreateView_def CreateView_def deny_all_def)
  have required: "permission_required ThingCreateView = Some ''add''"
    by (simp add: ThingCreateView_def CreateView_def)
  from dispatch_own_raise_iff [of demo_env ThingCreateView demo_request "[]"]
    dispatch_own_raise_iff [of demo_env ?denied demo_request "[]"]
    base open_view refused required
  show ?thesis
    by simp
qed

lemma dispatch_both_checks_example:
  "dispatch demo_env
       (ThingCreateView\<lparr>permission_policy := Some add_only,
          any_permission_required := Some [''change'', ''delete'']\<rparr>)
       demo_request []
     = (Inl PermissionDenied,
        ThingCreateView\<lparr>permission_policy := Some add_only,
          any_permission_required := Some [''change'', ''delete'']\<rparr>,
        [])"
  "fst (dispatch demo_env
         (ThingCreateView\<lparr>permission_policy := Some add_only,
            any_permission_required := Some [''add'', ''change'']\<rparr>)
         demo_request [])
     = Inr (TemplateResponse ''page'' demo_form)"
  "fst (dispatch demo_env (ThingDeleteView\<lparr>permission_policy := Some add_only\<rparr>)
         demo_request [])
     = Inl PermissionDenied"
  "fst (dispatch demo_env (ThingDeleteView\<lparr>permission_policy := Some allow_all\<rparr>)
         demo_request [])
     = Inr (TemplateResponse ''page'' demo_form)"
  by (simp_all add: dispatch_def ThingCreateView_def CreateView_def ThingDeleteView_def
      DeleteView_def add_only_def allow_all_def demo_env_def)

section \<open>Running hooks\<close>

lemma run_hook_loop_first_response: "run_hook_loop fns a s = first_response fns a s"
proof (induction fns arbitrary: s)
  case Nil
  show ?case by (simp add: first_response_def)
next
  case (Cons f fns)
  obtain result s' where call: "f a s = (result, s')"
    by (cases "f a s")
  show ?case
  proof (cases "hasattr_status_code result")
    case True
    with call show ?thesis by (simp add: first_response_def)
  next
    case False
    with call Cons.IH [of s'] show ?thesis
      by (simp add: first_response_def split: option.splits)
  qed
qed

text \<open>
  C2. \<open>run_hook\<close> invokes the callbacks registered under the name in their registered
  order, each in the state the one before left. It returns the result of the first one
  whose result has a \<open>status_code\<close>, in the state right after that call, so that no later
  callback has run; when no result has one, it returns \<open>None\<close> in the state after all
  the calls.
\<close>

theorem run_hook_first_response:
  "run_hook reg hook_name a s = first_response (get_hooks reg hook_name) a s"
  by (simp add: run_hook_def run_hook_loop_first_response)

lemma run_hook_example:
  "run_hook demo_registry ''before_edit'' () []
     = (PyResponse (HttpResponseRedirect ''/login''), [1, 2, 3])"
  "run_hook demo_registry ''after_edit'' () [] = (PyNone, [5, 6])"
  "run_hook demo_registry ''unknown'' () [] = (PyNone, [])"
  by (simp_all add: run_hook_def get_hooks_def demo_registry_def logging_hook_def)

section \<open>What the views do to the world\<close>

text \<open>
  The events a step adds are read off by \<open>new_events\<close> and \<open>emitted\<close>. The lemmas
  below describe each mutating method twice: what holds when it returns a response, and
  what the world looks like in every outcome, an exception included.
\<close>

lemma new_events_append [simp]: "new_events w (w @ es) = es"
  by (simp add: new_events_def)

lemma new_events_self [simp]: "new_events w w = []"
  by (simp add: new_events_def)

lemma emitted_append [simp]: "emitted w (w @ es) = message_levels es"
  by (simp add: emitted_def)

lemma emitted_self [simp]: "emitted w w = []"
  by (simp add: emitted_def)

lemma CreateView_form_valid_returns:
  assumes "CreateView_form_valid e v frm w = (Inr r, v', w')"
  shows "\<exists>obj url. save frm = Inr obj
           \<and> reverse e (index_url_name v) [] = Inr url
           \<and> r = HttpResponseRedirect url
           \<and> v' = v\<lparr>form := Some frm, object := Some obj\<rparr>
           \<and> (case success_message v of
                 None \<Rightarrow> w' = w @ [FormSaved obj]
               | Some m \<Rightarrow>
                   (\<exists>text edit_url.
                      str_format e m (Some obj) = Inr text
                      \<and> reverse e (edit_url_name v) [instance_id obj] = Inr edit_url
                      \<and> w' = w @ [FormSaved obj,
                                  Message LevelSuccess (Some text)
                                    [Button edit_url (gettext e ''Edit'')]]))"
  using assms
  by (auto simp: CreateView_form_valid_def CreateView_save_instance_def
      CreateView_get_success_message_def CreateView_get_success_url_def object_id_def
      messages_success_def messages_button_def redirect_def Let_def
      split: sum.splits option.splits prod.splits)

lemma CreateView_form_valid_world:
  "\<exists>es. snd (snd (CreateView_form_valid e v frm w)) = w @ es
        \<and> (es = [] \<or> (\<exists>obj. es = [FormSaved obj])
            \<or> (\<exists>obj text bs. es = [FormSaved obj, Message LevelSuccess text bs]))"
  by (auto simp: CreateView_form_valid_def CreateView_save_instance_def
      CreateView_get_success_message_def CreateView_get_success_url_def object_id_def
      messages_success_def messages_button_def redirect_def Let_def
      split: sum.splits option.splits prod.splits)

lemma EditView_form_valid_returns:
  assumes "EditView_form_valid e v frm w = (Inr r, v', w')"
  shows "\<exists>obj url. save frm = Inr obj
           \<and> reverse e (index_url_name v) [] = Inr url
           \<and> r = HttpResponseRedirect url
           \<and> v' = v\<lparr>form := Some frm, object := Some obj\<rparr>
           \<and> (case success_message v of
                 None \<Rightarrow> w' = w @ [FormSaved obj]
               | Some m \<Rightarrow>
                   (\<exists>text edit_url.
                      str_format e m (Some obj) = Inr text
                      \<and> reverse e (edit_url_name v) [instance_id obj] = Inr edit_url
                      \<and> w' = w @ [FormSaved obj,
                                  Message LevelSuccess (Some text)
                                    [Button edit_url (gettext e ''Edit'')]]))"
  using assms
  by (auto simp: EditView_form_valid_def EditView_save_instance_def
      EditView_get_success_message_def EditView_get_success_url_def object_id_def
      messages_success_def messages_button_def redirect_def Let_def
      split: sum.splits option.splits prod.splits)

lemma EditView_form_valid_world:
  "\<exists>es. snd (snd (EditView_form_valid e v frm w)) = w @ es
        \<and> (es = [] \<or> (\<exists>obj. es = [FormSaved obj])
            \<or> (\<exists>obj text bs. es = [FormSaved obj, Message LevelSuccess text bs]))"
  by (auto simp: EditView_form_valid_def EditView_save_instance_def
      EditView_get_success_message_def EditView_get_success_url_def object_id_def
      messages_success_def messages_button_def redirect_def Let_def
      split: sum.splits option.splits prod.splits)

lemma CreateView_form_invalid_eq:
  "CreateView_form_invalid e v frm w =
     (super_form_invalid e (v\<lparr>form := Some frm\<rparr>) frm, v\<lparr>form := Some frm\<rparr>,
      w @ (case error_message v of None \<Rightarrow> [] | Some m \<Rightarrow> [Message LevelError (Some m) []]))"
  by (simp add: CreateView_form_invalid_def CreateView_get_error_message_def
      messages_error_def Let_def split: option.splits)

lemma EditView_form_invalid_eq:
  "EditView_form_invalid e v frm w =
     (super_form_invalid e (v\<lparr>form := Some frm\<rparr>) frm, v\<lparr>form := Some frm\<rparr>,
      w @ (case error_message v of None \<Rightarrow> [] | Some m \<Rightarrow> [Message LevelError (Some m) []]))"
  by (simp add: EditView_form_invalid_def EditView_get_error_message_def
      messages_error_def Let_def split: option.splits)

lemma DeleteView_delete_returns:
  assumes "DeleteView_delete e v req w = (Inr r, v', w')"
  shows "\<exists>obj url message.
           object v' = Some obj
           \<and> reverse e (index_url_name v) [] = Inr url
           \<and> r = HttpResponseRedirect url
           \<and> DeleteView_get_success_message e v' = Inr message
           \<and> (success_message v = None \<longrightarrow> message = None)
           \<and> w' = w @ [ObjectDeleted obj, Message LevelSuccess message []]"
  using assms
  by (auto simp: DeleteView_delete_def BaseDeleteView_delete_def DeleteView_get_object_def
      DeleteView_get_success_message_def DeleteView_get_success_url_def
      messages_success_def Let_def
      split: sum.splits option.splits prod.splits list.splits if_splits)

lemma DeleteView_delete_world:
  "\<exists>es. snd (snd (DeleteView_delete e v req w)) = w @ es
        \<and> (es = [] \<or> (\<exists>obj. es = [ObjectDeleted obj])
            \<or> (\<exists>obj text. es = [ObjectDeleted obj, Message LevelSuccess text []]))"
  by (auto simp: DeleteView_delete_def BaseDeleteView_delete_def DeleteView_get_object_def
      DeleteView_get_success_message_def DeleteView_get_success_url_def
      messages_success_def Let_def
      split: sum.splits option.splits prod.splits list.splits if_splits)

subsection \<open>The example requests, evaluated\<close>

lemma demo_create_with_message:
  "CreateView_form_valid demo_env MessagingCreateView demo_form []
     = (Inr (HttpResponseRedirect ''/things''),
        MessagingCreateView\<lparr>form := Some demo_form, object := Some demo_instance\<rparr>,
        [FormSaved demo_instance,
         Message LevelSuccess (Some ''Thing created.'') [Button ''/things/edit'' ''Edit'']])"
  by (simp add: CreateView_form_valid_def CreateView_save_instance_def
      CreateView_get_success_message_def CreateView_get_success_url_def object_id_def
      MessagingCreateView_def ThingCreateView_def CreateView_def demo_env_def demo_form_def
      demo_reverse_def redirect_def messages_success_def messages_button_def)

lemma demo_edit:
  "EditView_form_valid demo_env ThingEditView demo_form []
     = (Inr (HttpResponseRedirect ''/things''),
        ThingEditView\<lparr>form := Some demo_form, object := Some demo_instance\<rparr>,
        [FormSaved demo_instance])"
  by (simp add: EditView_form_valid_def EditView_save_instance_def
      EditView_get_success_message_def EditView_get_success_url_def
      ThingEditView_def EditView_def demo_env_def demo_form_def demo_reverse_def
      redirect_def)

lemma demo_delete:
  "DeleteView_delete demo_env ThingDeleteView demo_request []
     = (Inr (HttpResponseRedirect ''/things''),
        ThingDeleteView\<lparr>kwargs := [''pk'' \<mapsto> 7], object := Some demo_instance\<rparr>,
        [ObjectDeleted demo_instance, Message LevelSuccess None []])"
  by (simp add: DeleteView_delete_def BaseDeleteView_delete_def DeleteView_get_object_def
      DeleteView_get_success_message_def DeleteView_get_success_url_def
      ThingDeleteView_def DeleteView_def demo_env_def demo_reverse_def
      messages_success_def)

section \<open>Messages per request\<close>

text \<open>
  C3, as the claim states it, fails: a view that leaves \<open>success_message\<close> at its
  default completes a valid submission, persisting the instance and redirecting, without
  emitting any message.
\<close>

theorem completed_request_without_message:
  "CreateView_form_valid demo_env ThingCreateView demo_form []
     = (Inr (HttpResponseRedirect ''/things''),
        ThingCreateView\<lparr>form := Some demo_form, object := Some demo_instance\<rparr>,
        [FormSaved demo_instance])
   \<and> length (emitted [] (snd (snd (CreateView_form_valid demo_env ThingCreateView demo_form []))))
       \<noteq> 1"
  by (simp add: CreateView_form_valid_def CreateView_save_instance_def
      CreateView_get_success_message_def CreateView_get_success_url_def
      ThingCreateView_def CreateView_def demo_env_def demo_form_def demo_reverse_def
      redirect_def emitted_def new_events_def)

text \<open>
  C3, amended. A valid submission to \<open>CreateView\<close> or \<open>EditView\<close> that completes emits
  exactly one success message when \<open>success_message\<close> is configured and no message when
  it is not; a \<open>DeleteView\<close> deletion that completes emits exactly one success message.
  None of them emits an error message.
\<close>

theorem completed_request_messages:
  "(CreateView_form_valid e v frm w = (Inr r, v', w') \<longrightarrow>
      emitted w w' = (case success_message v of None \<Rightarrow> [] | Some m \<Rightarrow> [LevelSuccess]))
   \<and> (EditView_form_valid e v frm w = (Inr r, v', w') \<longrightarrow>
      emitted w w' = (case success_message v of None \<Rightarrow> [] | Some m \<Rightarrow> [LevelSuccess]))
   \<and> (DeleteView_delete e v req w = (Inr r, v', w') \<longrightarrow> emitted w w' = [LevelSuccess])"
proof (intro conjI impI)
  assume "CreateView_form_valid e v frm w = (Inr r, v', w')"
  from CreateView_form_valid_returns [OF this]
  show "emitted w w' = (case success_message v of None \<Rightarrow> [] | Some m \<Rightarrow> [LevelSuccess])"
    by (auto split: option.splits)
next
  assume "EditView_form_valid e v frm w = (Inr r, v', w')"
  from EditView_form_valid_returns [OF this]
  show "emitted w w' = (case success_message v of None \<Rightarrow> [] | Some m \<Rightarrow> [LevelSuccess])"
    by (auto split: option.splits)
next
  assume "DeleteView_delete e v req w = (Inr r, v', w')"
  from DeleteView_delete_returns [OF this]
  show "emitted w w' = [LevelSuccess]"
    by auto
qed

theorem completed_request_messages_witness:
  "fst (CreateView_form_valid demo_env MessagingCreateView demo_form [])
     = Inr (HttpResponseRedirect ''/things'')
   \<and> emitted [] (snd (snd (CreateView_form_valid demo_env MessagingCreateView demo_form [])))
       = [LevelSuccess]
   \<and> fst (EditView_form_valid demo_env ThingEditView demo_form [])
       = Inr (HttpResponseRedirect ''/things'')
   \<and> emitted [] (snd (snd (EditView_form_valid demo_env ThingEditView demo_form []))) = []
   \<and> fst (DeleteView_delete demo_env ThingDeleteView demo_request [])
       = Inr (HttpResponseRedirect ''/things'')
   \<and> emitted [] (snd (snd (DeleteView_delete demo_env ThingDeleteView demo_request [])))
       = [LevelSuccess]"
proof -
  have configured: "success_message MessagingCreateView = Some ''Thing created.''"
    by (simp add: MessagingCreateView_def)
  have default: "success_message ThingEditView = None"
    by (simp add: ThingEditView_def EditView_def)
  from completed_request_messages [THEN conjunct1, rule_format, OF demo_create_with_message]
    completed_request_messages [THEN conjunct2, THEN conjunct1, rule_format, OF demo_edit]
    completed_request_messages [THEN conjunct2, THEN conjunct2, rule_format, OF demo_delete]
    configured default
  show ?thesis
    by (simp add: demo_create_with_message demo_edit demo_delete)
qed

text \<open>
  C4. Whatever the outcome of a valid submission, an invalid submission or a deletion,
  an exception included, the view only adds events to the world and at most one of them
  is a message: never two success messages, never two error messages, never one of each.
\<close>

theorem at_most_one_message:
  "take (length w) (snd (snd (CreateView_form_valid e v frm w))) = w
   \<and> length (emitted w (snd (snd (CreateView_form_valid e v frm w)))) \<le> 1
   \<and> take (length w) (snd (snd (CreateView_form_invalid e v frm w))) = w
   \<and> length (emitted w (snd (snd (CreateView_form_invalid e v frm w)))) \<le> 1
   \<and> take (length w) (snd (snd (EditView_form_valid e v frm w))) = w
   \<and> length (emitted w (snd (snd (EditView_form_valid e v frm w)))) \<le> 1
   \<and> take (length w) (snd (snd (EditView_form_invalid e v frm w))) = w
   \<and> length (emitted w (snd (snd (EditView_form_invalid e v frm w)))) \<le> 1
   \<and> take (length w) (snd (snd (DeleteView_delete e v req w))) = w
   \<and> length (emitted w (snd (snd (DeleteView_delete e v req w)))) \<le> 1"
proof -
  have create: "take (length w) (snd (snd (CreateView_form_valid e v frm w))) = w
      \<and> length (emitted w (snd (snd (CreateView_form_valid e v frm w)))) \<le> 1"
    using CreateView_form_valid_world [of e v frm w] by auto
  have edit: "take (length w) (snd (snd (EditView_form_valid e v frm w))) = w
      \<and> length (emitted w (snd (snd (EditView_form_valid e v frm w)))) \<le> 1"
    using EditView_form_valid_world [of e v frm w] by auto
  have delete: "take (length w) (snd (snd (DeleteView_delete e v req w))) = w
      \<and> length (emitted w (snd (snd (DeleteView_delete e v req w)))) \<le> 1"
    using DeleteView_delete_world [of e v req w] by auto
  have create_invalid: "take (length w) (snd (snd (CreateView_form_invalid e v frm w))) = w
      \<and> length (emitted w (snd (snd (CreateView_form_invalid e v frm w)))) \<le> 1"
    by (simp add: CreateView_form_invalid_eq split: option.splits)
  have edit_invalid: "take (length w) (snd (snd (EditView_form_invalid e v frm w))) = w
      \<and> length (emitted w (snd (snd (EditView_form_invalid e v frm w)))) \<le> 1"
    by (simp add: EditView_form_invalid_eq split: option.splits)
  from create edit delete create_invalid edit_invalid show ?thesis
    by blast
qed

section \<open>Redirect target and order of the steps\<close>

text \<open>
  C5. When a valid submission to \<open>CreateView\<close> or \<open>EditView\<close>, or a \<open>DeleteView\<close>
  deletion, completes, the response is a redirect whose target is the URL that reversing
  the view's \<open>index_url_name\<close> gives.
\<close>

theorem success_redirects_to_index:
  "(CreateView_form_valid e v frm w = (Inr r, v', w') \<longrightarrow>
      (\<exists>url. reverse e (index_url_name v) [] = Inr url \<and> r = HttpResponseRedirect url))
   \<and> (EditView_form_valid e v frm w = (Inr r, v', w') \<longrightarrow>
      (\<exists>url. reverse e (index_url_name v) [] = Inr url \<and> r = HttpResponseRedirect url))
   \<and> (DeleteView_delete e v req w = (Inr r, v', w') \<longrightarrow>
      (\<exists>url. reverse e (index_url_name v) [] = Inr url \<and> r = HttpResponseRedirect url))"
proof (intro conjI impI)
  assume "CreateView_form_valid e v frm w = (Inr r, v', w')"
  from CreateView_form_valid_returns [OF this]
  show "\<exists>url. reverse e (index_url_name v) [] = Inr url \<and> r = HttpResponseRedirect url"
    by blast
next
  assume "EditView_form_valid e v frm w = (Inr r, v', w')"
  from EditView_form_valid_returns [OF this]
  show "\<exists>url. reverse e (index_url_name v) [] = Inr url \<and> r = HttpResponseRedirect url"
    by blast
next
  assume "DeleteView_delete e v req w = (Inr r, v', w')"
  from DeleteView_delete_returns [OF this]
  show "\<exists>url. reverse e (index_url_name v) [] = Inr url \<and> r = HttpResponseRedirect url"
    by blast
qed

theorem success_redirects_to_index_witness:
  "fst (CreateView_form_valid demo_env MessagingCreateView demo_form [])
     = Inr (HttpResponseRedirect ''/things'')
   \<and> reverse demo_env (index_url_name MessagingCreateView) [] = Inr ''/things''
   \<and> fst (EditView_form_valid demo_env ThingEditView demo_form [])
       = Inr (HttpResponseRedirect ''/things'')
   \<and> reverse demo_env (index_url_name ThingEditView) [] = Inr ''/things''
   \<and> fst (DeleteView_delete demo_env ThingDeleteView demo_request [])
       = Inr (HttpResponseRedirect ''/things'')
   \<and> reverse demo_env (index_url_name ThingDeleteView) [] = Inr ''/things''"
  using success_redirects_to_index [THEN conjunct1, rule_format, OF demo_create_with_message]
    success_redirects_to_index [THEN conjunct2, THEN conjunct1, rule_format, OF demo_edit]
    success_redirects_to_index [THEN conjunct2, THEN conjunct2, rule_format, OF demo_delete]
  by (simp add: demo_create_with_message demo_edit demo_delete)



section \<open>Invalid submissions\<close>

text \<open>
  C7, as the claim states it, fails: a view that leaves \<open>error_message\<close> at its default
  re-renders an invalid form without emitting any message.
\<close>

theorem invalid_form_without_message:
  "CreateView_form_invalid demo_env ThingCreateView invalid_form []
     = (Inr (TemplateResponse ''form'' invalid_form),
        ThingCreateView\<lparr>form := Some invalid_form\<rparr>, [])
   \<and> length (emitted [] (snd (snd (CreateView_form_invalid demo_env ThingCreateView
                                     invalid_form []))))
       \<noteq> 1"
  by (simp add: CreateView_form_invalid_def CreateView_get_error_message_def
      ThingCreateView_def CreateView_def demo_env_def)

text \<open>
  C7, amended. For an invalid submission \<open>CreateView\<close> and \<open>EditView\<close> answer with what
  the framework's \<open>form_invalid\<close> renders for the submitted form, which carries its inline
  errors, and add to the world exactly one error message with the text of
  \<open>error_message\<close> when it is configured, and nothing when it is not.
\<close>

theorem form_invalid_rerenders:
  "fst (CreateView_form_invalid e v frm w) = super_form_invalid e (v\<lparr>form := Some frm\<rparr>) frm
   \<and> snd (snd (CreateView_form_invalid e v frm w))
       = w @ (case error_message v of
                None \<Rightarrow> []
              | Some m \<Rightarrow> [Message LevelError (Some m) []])
   \<and> fst (EditView_form_invalid e v frm w) = super_form_invalid e (v\<lparr>form := Some frm\<rparr>) frm
   \<and> snd (snd (EditView_form_invalid e v frm w))
       = w @ (case error_message v of
                None \<Rightarrow> []
              | Some m \<Rightarrow> [Message LevelError (Some m) []])"
  by (simp add: CreateView_form_invalid_eq EditView_form_invalid_eq)

lemma form_invalid_example:
  "CreateView_form_invalid demo_env (ThingCreateView\<lparr>error_message := Some ''Not saved.''\<rparr>)
       invalid_form []
     = (Inr (TemplateResponse ''form'' invalid_form),
        ThingCreateView\<lparr>error_message := Some ''Not saved.'', form := Some invalid_form\<rparr>,
        [Message LevelError (Some ''Not saved.'') []])"
  by (simp add: CreateView_form_invalid_def CreateView_get_error_message_def
      ThingCreateView_def CreateView_def demo_env_def messages_error_def)

section \<open>Template context\<close>

text \<open>
  C8. \<open>EditView.get_context_data\<close> stores under \<open>can_delete\<close> a tuple of one element,
  the boolean that says whether there is no policy or the policy grants \<open>delete\<close>; a
  tuple of one element is truthy, so the entry is truthy also when the policy refuses.
  \<open>IndexView.get_context_data\<close> stores under \<open>can_add\<close> the boolean itself: true iff
  there is no policy or the policy grants \<open>add\<close>.
\<close>

theorem can_delete_is_tuple:
  "EditView_get_context_data e v kw ''can_delete''
     = Some (PyTuple [PyBool (permission_policy v = None
                \<or> (\<exists>p. permission_policy v = Some p
                      \<and> user_has_permission p (user (request v)) ''delete''))])
   \<and> (\<exists>x. EditView_get_context_data e v kw ''can_delete'' = Some x \<and> truthy x)
   \<and> IndexView_get_context_data e v kw ''can_add''
       = Some (PyBool (permission_policy v = None
                \<or> (\<exists>p. permission_policy v = Some p
                      \<and> user_has_permission p (user (request v)) ''add'')))"
  by (auto simp: EditView_get_context_data_def IndexView_get_context_data_def Let_def
      split: option.splits)

lemma can_delete_example:
  "EditView_get_context_data demo_env (ThingEditView\<lparr>permission_policy := Some deny_all\<rparr>)
       Map.empty ''can_delete''
     = Some (PyTuple [PyBool False])"
  "truthy (PyTuple [PyBool False])"
  "IndexView_get_context_data demo_env
       ((IndexView demo_request [] Map.empty)\<lparr>permission_policy := Some deny_all\<rparr>)
       Map.empty ''can_add''
     = Some (PyBool False)"
  "\<not> truthy (PyBool False)"
  by (simp_all add: EditView_get_context_data_def IndexView_get_context_data_def
      ThingEditView_def EditView_def IndexView_def demo_env_def deny_all_def)

section \<open>Deleting\<close>

text \<open>
  C10. A \<open>DeleteView\<close> deletion that completes has deleted the object and then emitted
  one success message, with no condition on \<open>success_message\<close>: the text of the message
  is what \<open>get_success_message\<close> returns, and that is \<open>None\<close>, not a formatted string, when
  \<open>success_message\<close> is \<open>None\<close>.
\<close>

theorem delete_always_emits_success:
  "(DeleteView_delete e v req w = (Inr r, v', w') \<longrightarrow>
      (\<exists>obj message.
         object v' = Some obj
         \<and> DeleteView_get_success_message e v' = Inr message
         \<and> w' = w @ [ObjectDeleted obj, Message LevelSuccess message []]
         \<and> (success_message v = None \<longrightarrow> message = None)))
   \<and> (success_message v = None \<longrightarrow> DeleteView_get_success_message e v = Inr None)"
proof (intro conjI impI)
  assume "DeleteView_delete e v req w = (Inr r, v', w')"
  from DeleteView_delete_returns [OF this]
  show "\<exists>obj message.
         object v' = Some obj
         \<and> DeleteView_get_success_message e v' = Inr message
         \<and> w' = w @ [ObjectDeleted obj, Message LevelSuccess message []]
         \<and> (success_message v = None \<longrightarrow> message = None)"
    by auto
next
  assume "success_message v = None"
  then show "DeleteView_get_success_message e v = Inr None"
    by (simp add: DeleteView_get_success_message_def)
qed

theorem delete_always_emits_success_witness:
  "success_message ThingDeleteView = None
   \<and> DeleteView_get_success_message demo_env ThingDeleteView = Inr None
   \<and> DeleteView_delete demo_env ThingDeleteView demo_request []
       = (Inr (HttpResponseRedirect ''/things''),
          ThingDeleteView\<lparr>kwargs := [''pk'' \<mapsto> 7], object := Some demo_instance\<rparr>,
          [ObjectDeleted demo_instance, Message LevelSuccess None []])"
proof -
  have none: "success_message ThingDeleteView = None"
    by (simp add: ThingDeleteView_def DeleteView_def)
  from delete_always_emits_success [THEN conjunct2, rule_format, OF none, of demo_env]
    delete_always_emits_success [THEN conjunct1, rule_format, OF demo_delete]
    none demo_delete
  show ?thesis by simp
qed

end
